theory Spec2Isabelle
  imports Complex_Main
begin

section \<open>The Semantix AI page: data model\<close>

text \<open>
  The repository's single source file is \<^verbatim>\<open>src/frontend/app/page.tsx\<close>: a React
  component \<^verbatim>\<open>Home\<close> holding four pieces of state, an asynchronous handler
  \<^verbatim>\<open>analyzeProduct\<close>, and a presentational component \<^verbatim>\<open>Speedometer\<close>.

  A JavaScript string is a sequence of UTF-16 code units; it is modelled as a list of
  natural numbers, one per code unit. Constants of the source that are only ever
  emitted (CSS class names, colours, captions, console messages) are plain \<open>string\<close>s.
\<close>

type_synonym jsstring = "nat list"

definition str :: "string \<Rightarrow> jsstring" where
  \<comment> \<open>An ASCII literal of the source as code units.\<close>
  "str s = map of_char s"

text \<open>
  What \<^verbatim>\<open>response.json()\<close> can resolve to: any JSON value. The TypeScript interfaces
  (\<^verbatim>\<open>GCOAnalysisResponse\<close> and the item types) are erased at run time, so the value
  kept in \<^verbatim>\<open>analysisResult\<close> is whatever was parsed; \<open>JNull\<close> is JavaScript's
  \<^verbatim>\<open>null\<close>, the initial value of that state. Numbers are idealised as reals.
\<close>

datatype json =
    JNull
  | JBool bool
  | JNum real
  | JStr jsstring
  | JArr "json list"
  | JObj "(jsstring \<times> json) list"

datatype tab = Facts | Scenarios | FAQ

text \<open>The four \<^verbatim>\<open>useState\<close> cells of \<^verbatim>\<open>Home\<close> (lines 93--96).\<close>

record home =
  originalText :: jsstring
  analysisResult :: json
  isLoading :: bool
  activeTab :: tab

definition initial :: home where
  "initial = \<lparr>originalText = [], analysisResult = JNull, isLoading = False, activeTab = Facts\<rparr>"

text \<open>The outbound call of lines 104--110: method, path below the configured base URL,
  content type, and the \<^verbatim>\<open>original_text\<close> member of the JSON body.\<close>

record request =
  req_method :: string
  req_path :: string
  req_content_type :: string
  req_original_text :: jsstring

text \<open>
  How the awaited call ends. \<^verbatim>\<open>fetch\<close> either rejects (network failure) or resolves
  to a response with its \<^verbatim>\<open>ok\<close> flag (status 200--299); \<^verbatim>\<open>response.json()\<close> either
  rejects (the body is not JSON text: \<open>None\<close>) or resolves to the parsed value.
\<close>

record response =
  ok :: bool
  body :: "json option"

datatype fetch_result = Rejected | Resolved response

text \<open>The value caught by the \<^verbatim>\<open>catch\<close> clause, and what \<^verbatim>\<open>console.error\<close> is given.\<close>

datatype js_error =
    FetchRejected
  | FailedToAnalyze  \<comment> \<open>\<^verbatim>\<open>new Error('Failed to analyze product')\<close>\<close>
  | JsonRejected

type_synonym console_entry = "string \<times> js_error"

section \<open>Speedometer\<close>

text \<open>
  \<^verbatim>\<open>score: number\<close>. The three expressions below only compare the score with 80 and
  60, so they are written once for every linearly ordered numeric type: the integers
  of the specification's data model and the reals of a parsed JSON number alike.
\<close>

definition getScoreColor :: "'a::linordered_idom \<Rightarrow> string" where
  "getScoreColor score =
     (if score \<ge> 80 then ''text-green-400''
      else if score \<ge> 60 then ''text-yellow-400''
      else ''text-red-400'')"

definition strokeColor :: "'a::linordered_idom \<Rightarrow> string" where
  \<comment> \<open>line 66, the \<^verbatim>\<open>stroke\<close> attribute of the progress ring\<close>
  "strokeColor score =
     (if score \<ge> 80 then ''#10b981'' else if score \<ge> 60 then ''#f59e0b'' else ''#ef4444'')"

definition scoreLabel :: "'a::linordered_idom \<Rightarrow> string" where
  \<comment> \<open>lines 82--84, the caption under the ring\<close>
  "scoreLabel score =
     (if score \<ge> 80 then ''Excellent AI Search Optimization''
      else if score \<ge> 60 then ''Good AI Search Optimization''
      else ''Needs Improvement'')"

text \<open>
  What \<^verbatim>\<open>Speedometer\<close> renders from its \<^verbatim>\<open>score\<close> property: the ring's stroke colour,
  the class and content of the number in the middle, and the caption. (The dash
  length \<^verbatim>\<open>(score / 100) * 283\<close> is floating-point arithmetic and is left out.)
\<close>

record 'a speedometer_view =
  ring_stroke :: string
  number_class :: string
  number_shown :: 'a
  caption :: string

definition Speedometer :: "'a::linordered_idom \<Rightarrow> 'a speedometer_view" where
  "Speedometer score =
     \<lparr>ring_stroke = strokeColor score,
      number_class = getScoreColor score,
      number_shown = score,
      caption = scoreLabel score\<rparr>"

section \<open>The request controller\<close>

text \<open>
  \<^verbatim>\<open>String.prototype.trim\<close> removes leading and trailing white space and line
  terminators (ECMAScript: TAB, LF, VT, FF, CR, SP, NBSP, the Unicode space
  separators, LS, PS and U+FEFF).
\<close>

definition isWhiteSpace :: "nat \<Rightarrow> bool" where
  "isWhiteSpace c \<longleftrightarrow>
     c \<in> set [0x09, 0x0A, 0x0B, 0x0C, 0x0D, 0x20, 0xA0, 0x1680,
              0x2000, 0x2001, 0x2002, 0x2003, 0x2004, 0x2005, 0x2006, 0x2007,
              0x2008, 0x2009, 0x200A, 0x2028, 0x2029, 0x202F, 0x205F, 0x3000, 0xFEFF]"

definition trim :: "jsstring \<Rightarrow> jsstring" where
  "trim s = rev (dropWhile isWhiteSpace (rev (dropWhile isWhiteSpace s)))"

definition analyzeRequest :: "jsstring \<Rightarrow> request" where
  "analyzeRequest text =
     \<lparr>req_method = ''POST'', req_path = ''/analyze'',
      req_content_type = ''application/json'', req_original_text = text\<rparr>"

text \<open>
  \<^verbatim>\<open>analyzeProduct\<close> is an \<^verbatim>\<open>async\<close> function: it runs up to the awaited \<^verbatim>\<open>fetch\<close>,
  and is resumed when the call has ended. Other handlers can run in between, so the
  two halves are separate transitions.

  First half (lines 100--110): return at once when the trimmed text is empty;
  otherwise set \<^verbatim>\<open>isLoading\<close> and issue the call. The result is the new state and
  the call issued, if any.
\<close>

definition analyzeProduct_begin :: "home \<Rightarrow> home \<times> request option" where
  "analyzeProduct_begin s =
     (if trim (originalText s) = [] then (s, None)
      else (s\<lparr>isLoading := True\<rparr>, Some (analyzeRequest (originalText s))))"

text \<open>
  Second half (lines 112--123): a response that is not \<^verbatim>\<open>ok\<close> throws; otherwise the
  body is parsed and handed to \<^verbatim>\<open>setAnalysisResult\<close> as it is. Whatever was thrown
  or rejected is caught and passed to \<^verbatim>\<open>console.error\<close>, and nothing else is done
  with it. \<^verbatim>\<open>finally\<close> clears \<^verbatim>\<open>isLoading\<close> on every path. The result is the new
  state and the console entries written.
\<close>

definition logged :: "js_error \<Rightarrow> console_entry list" where
  "logged e = [(''Error analyzing product:'', e)]"

fun analyzeProduct_resume :: "fetch_result \<Rightarrow> home \<Rightarrow> home \<times> console_entry list" where
  "analyzeProduct_resume Rejected s = (s\<lparr>isLoading := False\<rparr>, logged FetchRejected)"
| "analyzeProduct_resume (Resolved r) s =
     (if \<not> ok r then (s\<lparr>isLoading := False\<rparr>, logged FailedToAnalyze)
      else (case body r of
              None \<Rightarrow> (s\<lparr>isLoading := False\<rparr>, logged JsonRejected)
            | Some data \<Rightarrow> (s\<lparr>analysisResult := data, isLoading := False\<rparr>, [])))"

text \<open>One whole run of \<^verbatim>\<open>analyzeProduct\<close> with nothing else happening in between:
  the final state, the call issued, and the console entries.\<close>

definition analyzeProduct ::
  "fetch_result \<Rightarrow> home \<Rightarrow> home \<times> request option \<times> console_entry list" where
  "analyzeProduct outcome s =
     (case analyzeProduct_begin s of
        (s1, None) \<Rightarrow> (s1, None, [])
      | (s1, Some req) \<Rightarrow>
          (case analyzeProduct_resume outcome s1 of (s2, out) \<Rightarrow> (s2, Some req, out)))"

text \<open>
  The submit button (lines 158--160): \<^verbatim>\<open>onClick={analyzeProduct}\<close> with
  \<^verbatim>\<open>disabled={isLoading || !originalText.trim()}\<close>. A disabled button delivers no click.
\<close>

definition buttonDisabled :: "home \<Rightarrow> bool" where
  "buttonDisabled s \<longleftrightarrow> isLoading s \<or> trim (originalText s) = []"

definition clickAnalyze :: "home \<Rightarrow> home \<times> request option" where
  "clickAnalyze s = (if buttonDisabled s then (s, None) else analyzeProduct_begin s)"

text \<open>The other two handlers: the text area's \<^verbatim>\<open>onChange\<close> (line 154) and the tab
  buttons' \<^verbatim>\<open>onClick\<close> (line 231).\<close>

definition setOriginalText :: "jsstring \<Rightarrow> home \<Rightarrow> home" where
  "setOriginalText text s = s\<lparr>originalText := text\<rparr>"

definition setActiveTab :: "tab \<Rightarrow> home \<Rightarrow> home" where
  "setActiveTab t s = s\<lparr>activeTab := t\<rparr>"

text \<open>
  JavaScript's truthiness of a parsed JSON value.
\<close>

fun truthy :: "json \<Rightarrow> bool" where
  "truthy JNull = False"
| "truthy (JBool b) = b"
| "truthy (JNum x) = (x \<noteq> 0)"
| "truthy (JStr s) = (s \<noteq> [])"
| "truthy (JArr xs) = True"
| "truthy (JObj kvs) = True"

text \<open>
  The pre-analysis placeholder ("Enter a product description and click ...") is the
  else-branch of \<^verbatim>\<open>analysisResult ? <Speedometer/> : placeholder\<close> (lines 208--217):
  it is rendered exactly when \<^verbatim>\<open>analysisResult\<close> is falsy, and then the two
  \<^verbatim>\<open>analysisResult && ...\<close> blocks (lines 182, 220) are not entered. With a truthy
  value the page renders the result panels, or throws while rendering when the
  value lacks a member the panels read (\<^verbatim>\<open>analysisResult.missing_elements.length\<close>,
  line 188); in neither case is the placeholder on the page. Only the placeholder
  is modelled here, not the panels.
\<close>

definition showsPlaceholder :: "home \<Rightarrow> bool" where
  "showsPlaceholder s = (\<not> truthy (analysisResult s))"

section \<open>Sessions: calls outstanding\<close>

text \<open>
  To speak of requests in flight, the page is run under a counter of the calls that
  have been issued and have not ended yet. The events are the handlers of the page:
  a click on the submit button, \<^verbatim>\<open>analyzeProduct\<close> called directly (not through the
  button), the end of an outstanding call (any one of them; the handler's second half
  does not depend on which), typing into the text area, and selecting a tab. A call
  can only end while one is outstanding. A click on the disabled button is an event
  that does nothing, and a tab may be selected in every state, although the page
  offers the tab buttons only next to a result: the sessions of the model include
  those of the page.
\<close>

datatype event =
    Click
  | Call
  | Ended fetch_result
  | Type jsstring
  | Select tab

record session =
  page :: home
  outstanding :: nat

definition start :: session where
  "start = \<lparr>page = initial, outstanding = 0\<rparr>"

definition issued :: "nat \<Rightarrow> home \<times> request option \<Rightarrow> session" where
  "issued n r =
     (case r of (s, None) \<Rightarrow> \<lparr>page = s, outstanding = n\<rparr>
              | (s, Some req) \<Rightarrow> \<lparr>page = s, outstanding = Suc n\<rparr>)"

fun step :: "event \<Rightarrow> session \<Rightarrow> session" where
  "step Click \<sigma> = issued (outstanding \<sigma>) (clickAnalyze (page \<sigma>))"
| "step Call \<sigma> = issued (outstanding \<sigma>) (analyzeProduct_begin (page \<sigma>))"
| "step (Ended outcome) \<sigma> =
     (if outstanding \<sigma> = 0 then \<sigma>
      else \<lparr>page = fst (analyzeProduct_resume outcome (page \<sigma>)),
            outstanding = outstanding \<sigma> - 1\<rparr>)"
| "step (Type text) \<sigma> = \<lparr>page = setOriginalText text (page \<sigma>), outstanding = outstanding \<sigma>\<rparr>"
| "step (Select t) \<sigma> = \<lparr>page = setActiveTab t (page \<sigma>), outstanding = outstanding \<sigma>\<rparr>"

fun run :: "event list \<Rightarrow> session \<Rightarrow> session" where
  "run [] \<sigma> = \<sigma>"
| "run (e # es) \<sigma> = run es (step e \<sigma>)"

text \<open>The state of a session in which all is well: at most one call is outstanding,
  and the loading flag is set exactly while one is.\<close>

definition at_most_one :: "session \<Rightarrow> bool" where
  "at_most_one \<sigma> \<longleftrightarrow>
     outstanding \<sigma> \<le> 1 \<and> (isLoading (page \<sigma>) \<longleftrightarrow> outstanding \<sigma> = 1)"

section \<open>The shape of an analysis result\<close>

text \<open>
  The shape a response body is declared to have: the interfaces of lines 7--34
  (\<^verbatim>\<open>FactItem\<close>, \<^verbatim>\<open>ScenarioItem\<close>, \<^verbatim>\<open>FAQItem\<close>, \<^verbatim>\<open>OptimizedStructure\<close>,
  \<^verbatim>\<open>GCOAnalysisResponse\<close>), with the specification's range for the score: an integer
  from 0 to 100. The source never evaluates this predicate; it is here to state
  what a malformed body is.
\<close>

definition hasString :: "(jsstring \<times> json) list \<Rightarrow> string \<Rightarrow> bool" where
  "hasString kvs k = (case map_of kvs (str k) of Some (JStr v) \<Rightarrow> True | _ \<Rightarrow> False)"

definition hasArrayOf :: "(json \<Rightarrow> bool) \<Rightarrow> (jsstring \<times> json) list \<Rightarrow> string \<Rightarrow> bool" where
  "hasArrayOf p kvs k = (case map_of kvs (str k) of Some (JArr xs) \<Rightarrow> list_all p xs | _ \<Rightarrow> False)"

definition isStringValue :: "json \<Rightarrow> bool" where
  "isStringValue j = (case j of JStr v \<Rightarrow> True | _ \<Rightarrow> False)"

definition isFactItem :: "json \<Rightarrow> bool" where
  "isFactItem j =
     (case j of JObj kvs \<Rightarrow> hasString kvs ''key'' \<and> hasString kvs ''value'' | _ \<Rightarrow> False)"

definition isScenarioItem :: "json \<Rightarrow> bool" where
  "isScenarioItem j =
     (case j of
        JObj kvs \<Rightarrow> hasString kvs ''scenario'' \<and> hasString kvs ''pain_point''
                      \<and> hasString kvs ''solution''
      | _ \<Rightarrow> False)"

definition isFAQItem :: "json \<Rightarrow> bool" where
  "isFAQItem j =
     (case j of JObj kvs \<Rightarrow> hasString kvs ''question'' \<and> hasString kvs ''answer'' | _ \<Rightarrow> False)"

definition isOptimizedStructure :: "json \<Rightarrow> bool" where
  "isOptimizedStructure j =
     (case j of
        JObj kvs \<Rightarrow> hasArrayOf isFactItem kvs ''fact_table''
                      \<and> hasArrayOf isScenarioItem kvs ''scenarios''
                      \<and> hasArrayOf isFAQItem kvs ''faq''
      | _ \<Rightarrow> False)"

definition hasScore :: "(jsstring \<times> json) list \<Rightarrow> bool" where
  "hasScore kvs =
     (case map_of kvs (str ''gco_score'') of
        Some (JNum x) \<Rightarrow> of_int \<lfloor>x\<rfloor> = x \<and> 0 \<le> x \<and> x \<le> 100
      | _ \<Rightarrow> False)"

definition hasStructure :: "(jsstring \<times> json) list \<Rightarrow> bool" where
  "hasStructure kvs =
     (case map_of kvs (str ''optimized_structure'') of
        Some j \<Rightarrow> isOptimizedStructure j
      | None \<Rightarrow> False)"

definition conformsAnalysisResult :: "json \<Rightarrow> bool" where
  "conformsAnalysisResult j =
     (case j of
        JObj kvs \<Rightarrow> hasScore kvs \<and> hasString kvs ''analysis_summary''
                      \<and> hasArrayOf isStringValue kvs ''missing_elements''
                      \<and> hasStructure kvs
      | _ \<Rightarrow> False)"

text \<open>
  Which endings of the call are failures for the handler: the \<^verbatim>\<open>fetch\<close> rejects,
  the response is not \<^verbatim>\<open>ok\<close>, or its body is not JSON text. These are exactly the
  paths into the \<^verbatim>\<open>catch\<close> clause.
\<close>

definition failed :: "fetch_result \<Rightarrow> bool" where
  "failed outcome = (case outcome of Rejected \<Rightarrow> True | Resolved r \<Rightarrow> \<not> ok r \<or> body r = None)"

section \<open>Sample data\<close>

text \<open>A well-formed result with score 85, and the specification's malformed body
  \<^verbatim>\<open>{"gco_score": "not-a-number"}\<close>.\<close>

definition sampleResult :: json where
  "sampleResult =
     JObj [(str ''gco_score'', JNum 85),
           (str ''analysis_summary'', JStr (str ''Clear and specific'')),
           (str ''missing_elements'', JArr []),
           (str ''optimized_structure'',
              JObj [(str ''fact_table'',
                       JArr [JObj [(str ''key'', JStr (str ''Power'')),
                                   (str ''value'', JStr (str ''9 W''))]]),
                    (str ''scenarios'', JArr []),
                    (str ''faq'', JArr [])])]"

definition malformedBody :: json where
  "malformedBody = JObj [(str ''gco_score'', JStr (str ''not-a-number''))]"

definition success :: "json \<Rightarrow> fetch_result" where
  "success data = Resolved \<lparr>ok = True, body = Some data\<rparr>"

definition serviceError :: fetch_result where
  \<comment> \<open>a response with a status outside 200--299; its body is never read\<close>
  "serviceError = Resolved \<lparr>ok = False, body = None\<rparr>"

definition notJson :: fetch_result where
  \<comment> \<open>a 2xx response whose body is not JSON text\<close>
  "notJson = Resolved \<lparr>ok = True, body = None\<rparr>"

text \<open>The page after the user has typed a description; the same with the request
  under way; and after a first analysis has succeeded.\<close>

definition typed :: home where
  "typed = setOriginalText (str ''desk lamp'') initial"

definition loading :: home where
  "loading = fst (analyzeProduct_begin typed)"

definition shown :: home where
  "shown = fst (analyzeProduct (success sampleResult) typed)"

section \<open>Basic facts\<close>

lemma trim_desk_lamp: "trim (str ''desk lamp'') \<noteq> []"
  by (simp add: trim_def str_def isWhiteSpace_def)

lemma trim_empty: "trim [] = []"
  by (simp add: trim_def)

lemma trim_spaces: "trim [0x20, 0x20, 0x20] = []"
  by (simp add: trim_def isWhiteSpace_def)

lemma typed_eq:
  "typed = \<lparr>originalText = str ''desk lamp'', analysisResult = JNull,
            isLoading = False, activeTab = Facts\<rparr>"
  by (simp add: typed_def setOriginalText_def initial_def)

lemma loading_eq:
  "loading = \<lparr>originalText = str ''desk lamp'', analysisResult = JNull,
              isLoading = True, activeTab = Facts\<rparr>"
  using trim_desk_lamp by (simp add: loading_def analyzeProduct_begin_def typed_eq)

lemma shown_eq:
  "shown = \<lparr>originalText = str ''desk lamp'', analysisResult = sampleResult,
            isLoading = False, activeTab = Facts\<rparr>"
  using trim_desk_lamp
  by (simp add: shown_def analyzeProduct_def analyzeProduct_begin_def typed_eq success_def)

lemma sampleResult_conforms: "conformsAnalysisResult sampleResult"
  by (simp add: conformsAnalysisResult_def sampleResult_def str_def hasScore_def
      hasString_def hasArrayOf_def hasStructure_def isOptimizedStructure_def
      isFactItem_def isStringValue_def)

lemma malformedBody_violates: "\<not> conformsAnalysisResult malformedBody"
  by (simp add: conformsAnalysisResult_def malformedBody_def str_def hasScore_def)

lemma sampleResult_truthy: "truthy sampleResult"
  by (simp add: sampleResult_def)

lemma resume_failed:
  "failed outcome \<Longrightarrow>
     \<exists>e. analyzeProduct_resume outcome s = (s\<lparr>isLoading := False\<rparr>, logged e)"
  by (cases outcome) (auto simp: failed_def split: option.splits)

lemma resume_stored:
  "analyzeProduct_resume (Resolved \<lparr>ok = True, body = Some data\<rparr>) s
     = (s\<lparr>analysisResult := data, isLoading := False\<rparr>, [])"
  by simp

lemma begin_nonblank:
  "trim (originalText s) \<noteq> [] \<Longrightarrow>
     analyzeProduct_begin s = (s\<lparr>isLoading := True\<rparr>, Some (analyzeRequest (originalText s)))"
  by (simp add: analyzeProduct_begin_def)

lemma begin_blank: "trim (originalText s) = [] \<Longrightarrow> analyzeProduct_begin s = (s, None)"
  by (simp add: analyzeProduct_begin_def)

lemma resume_not_loading: "\<not> isLoading (fst (analyzeProduct_resume outcome s))"
  by (cases outcome) (simp_all split: option.splits)

lemma step_at_most_one:
  assumes "e \<noteq> Call" and "at_most_one \<sigma>"
  shows "at_most_one (step e \<sigma>)"
proof (cases e)
  case Click
  show ?thesis
  proof (cases "buttonDisabled (page \<sigma>)")
    case True
    with Click assms(2) show ?thesis
      by (simp add: clickAnalyze_def issued_def at_most_one_def)
  next
    case False
    then have "\<not> isLoading (page \<sigma>)" and "trim (originalText (page \<sigma>)) \<noteq> []"
      by (simp_all add: buttonDisabled_def)
    with Click False assms(2) show ?thesis
      by (simp add: clickAnalyze_def begin_nonblank issued_def at_most_one_def)
  qed
next
  case Call
  with assms(1) show ?thesis by simp
next
  case (Ended outcome)
  with assms(2) show ?thesis
    using resume_not_loading [of outcome "page \<sigma>"] by (auto simp: at_most_one_def)
next
  case (Type typed_in)
  with assms(2) show ?thesis
    by (simp add: at_most_one_def setOriginalText_def)
next
  case (Select t)
  with assms(2) show ?thesis
    by (simp add: at_most_one_def setActiveTab_def)
qed

lemma run_at_most_one:
  "at_most_one \<sigma> \<Longrightarrow> Call \<notin> set es \<Longrightarrow> at_most_one (run es \<sigma>)"
proof (induction es arbitrary: \<sigma>)
  case Nil
  then show ?case by simp
next
  case (Cons e es)
  from Cons.prems have "e \<noteq> Call" and "Call \<notin> set es"
    by auto
  with Cons.prems(1) have "at_most_one (step e \<sigma>)"
    by (simp add: step_at_most_one)
  with Cons.IH \<open>Call \<notin> set es\<close> show ?case by simp
qed

section \<open>Claims about the request controller\<close>

text \<open>
  C1, as stated: after every failure of an analysis request the exposed result is
  cleared to null, so that no result of an earlier success stays on display.
  Refuted: on the page that shows a first result, a second request that fails (for
  each of the three failure paths) leaves that result stored, and the placeholder
  does not come back.
\<close>

theorem C1_stale_result_survives_failure:
  "analysisResult (fst (analyzeProduct Rejected shown)) \<noteq> JNull
   \<and> analysisResult (fst (analyzeProduct serviceError shown)) \<noteq> JNull
   \<and> analysisResult (fst (analyzeProduct notJson shown)) \<noteq> JNull
   \<and> \<not> showsPlaceholder (fst (analyzeProduct Rejected shown))"
  using trim_desk_lamp sampleResult_truthy
  by (simp add: analyzeProduct_def analyzeProduct_begin_def shown_eq serviceError_def
      notJson_def showsPlaceholder_def sampleResult_def)

text \<open>
  C1, amended: after every failure the handler catches (the call rejects, the response
  is not ok, the body is not JSON text) of a request submitted with non-blank text,
  the loading flag is cleared, one entry is written to the console, and the stored
  result is left exactly as it was before the request; the placeholder is shown
  after the failure if and only if it was shown before the request.
\<close>

theorem C1_failure_keeps_result:
  assumes "failed outcome" and "trim (originalText s) \<noteq> []"
  shows "\<not> isLoading (fst (analyzeProduct outcome s))
         \<and> analysisResult (fst (analyzeProduct outcome s)) = analysisResult s
         \<and> showsPlaceholder (fst (analyzeProduct outcome s)) = showsPlaceholder s
         \<and> length (snd (snd (analyzeProduct outcome s))) = 1"
proof -
  obtain e where "analyzeProduct_resume outcome (s\<lparr>isLoading := True\<rparr>)
                    = (s\<lparr>isLoading := True, isLoading := False\<rparr>, logged e)"
    using resume_failed [OF assms(1)] by blast
  then show ?thesis
    using assms(2)
    by (simp add: analyzeProduct_def begin_nonblank showsPlaceholder_def logged_def)
qed

theorem C1_failure_keeps_result_witness:
  "failed serviceError \<and> trim (originalText shown) \<noteq> []
   \<and> \<not> isLoading (fst (analyzeProduct serviceError shown))
   \<and> analysisResult (fst (analyzeProduct serviceError shown)) = sampleResult
   \<and> \<not> showsPlaceholder (fst (analyzeProduct serviceError shown))
   \<and> length (snd (snd (analyzeProduct serviceError shown))) = 1"
proof -
  have f: "failed serviceError"
    by (simp add: failed_def serviceError_def)
  have t: "trim (originalText shown) \<noteq> []"
    using trim_desk_lamp by (simp add: shown_eq)
  show ?thesis
    using f t C1_failure_keeps_result [OF f t] sampleResult_truthy
    by (simp add: shown_eq showsPlaceholder_def)
qed

text \<open>
  C2, as stated: a 2xx response whose JSON body does not have the shape of an analysis
  result is detected before anything is stored, and never becomes the stored result.
  Refuted: the specification's own malformed body, returned with a 2xx status while
  the request is under way, is stored as the result, and nothing is reported.
\<close>

theorem C2_malformed_body_is_stored:
  "\<not> conformsAnalysisResult malformedBody
   \<and> analysisResult (fst (analyzeProduct_resume (success malformedBody) loading)) = malformedBody
   \<and> snd (analyzeProduct_resume (success malformedBody) loading) = []"
  using malformedBody_violates by (simp add: success_def)

text \<open>
  C2, amended: the handler does not look at the shape of the body. A 2xx response
  whose JSON body does not conform is stored as the result exactly as parsed, the
  loading flag is cleared and nothing is written to the console. Only a body that is
  not JSON text at all is rejected: then the stored result is unchanged.
\<close>

theorem C2_body_stored_unchecked:
  assumes "\<not> conformsAnalysisResult data"
  shows "analyzeProduct_resume (success data) s
           = (s\<lparr>analysisResult := data, isLoading := False\<rparr>, [])
         \<and> analyzeProduct_resume notJson s = (s\<lparr>isLoading := False\<rparr>, logged JsonRejected)"
  by (simp add: success_def notJson_def)

theorem C2_body_stored_unchecked_witness:
  "\<not> conformsAnalysisResult malformedBody
   \<and> analyzeProduct_resume (success malformedBody) loading
       = (\<lparr>originalText = str ''desk lamp'', analysisResult = malformedBody,
            isLoading = False, activeTab = Facts\<rparr>, [])
   \<and> analyzeProduct_resume notJson loading
       = (\<lparr>originalText = str ''desk lamp'', analysisResult = JNull,
            isLoading = False, activeTab = Facts\<rparr>, logged JsonRejected)"
  using malformedBody_violates C2_body_stored_unchecked [OF malformedBody_violates, of loading]
  by (simp add: loading_eq)

text \<open>
  C3, as stated: a new analysis that is submitted and succeeds resets the active tab
  to facts, whichever tab was active.
  Refuted: with a first result on display and the scenarios tab selected, a second
  analysis that succeeds leaves the scenarios tab active.
\<close>

theorem C3_tab_not_reset:
  "activeTab (fst (analyzeProduct (success sampleResult) (setActiveTab Scenarios shown)))
     \<noteq> Facts"
  using trim_desk_lamp
  by (simp add: analyzeProduct_def analyzeProduct_begin_def setActiveTab_def shown_eq
      success_def)

text \<open>
  C3, amended: submitting an analysis never touches the active tab. Neither half of
  the handler changes it, so after a run, successful or not, the tab that was active
  before is still active (facts only if it was facts, or the user selects it).
\<close>

theorem C3_tab_preserved:
  "activeTab (fst (analyzeProduct_begin s)) = activeTab s
   \<and> activeTab (fst (analyzeProduct_resume outcome s)) = activeTab s
   \<and> activeTab (fst (analyzeProduct outcome s)) = activeTab s"
proof -
  have b: "activeTab (fst (analyzeProduct_begin s')) = activeTab s'" for s'
    by (simp add: analyzeProduct_begin_def)
  have r: "activeTab (fst (analyzeProduct_resume outcome s')) = activeTab s'" for s'
    by (cases outcome) (simp_all split: option.splits)
  have "activeTab (fst (analyzeProduct outcome s)) = activeTab s"
  proof (cases "trim (originalText s) = []")
    case True
    then show ?thesis by (simp add: analyzeProduct_def begin_blank)
  next
    case False
    then show ?thesis
      using r [of "s\<lparr>isLoading := True\<rparr>"]
      by (cases "analyzeProduct_resume outcome (s\<lparr>isLoading := True\<rparr>)")
         (simp add: analyzeProduct_def begin_nonblank)
  qed
  with b r show ?thesis by simp
qed

text \<open>
  C4, as stated: a submit while a request is in flight is ignored by the controller
  itself: no state change and no second outbound call, also when the disabled button
  is bypassed by a programmatic call.
  Refuted: with the first request under way, calling the handler again issues a
  second call to the service.
\<close>

theorem C4_second_call_dispatched:
  "isLoading loading
   \<and> snd (analyzeProduct_begin loading) = Some (analyzeRequest (str ''desk lamp''))"
  using trim_desk_lamp by (simp add: analyzeProduct_begin_def loading_eq)

text \<open>
  C4, amended: the handler itself does not ignore a submit made while the loading
  flag is set: called directly with non-blank text it leaves the state as it is and
  issues another call. The only guard is the disabled button: while the loading flag
  is set, a click changes nothing and issues no call. As long as every submission
  goes through the button (no direct call of the handler), at most one call is
  outstanding at any time, the loading flag is set exactly while one is, and the
  button is disabled while one is.
\<close>

theorem C4_guard_is_the_button:
  "(Call \<notin> set es \<longrightarrow>
      outstanding (run es start) \<le> 1
      \<and> (isLoading (page (run es start)) \<longleftrightarrow> outstanding (run es start) = 1)
      \<and> (0 < outstanding (run es start) \<longrightarrow> buttonDisabled (page (run es start))))
   \<and> (isLoading s \<longrightarrow>
        clickAnalyze s = (s, None)
        \<and> (trim (originalText s) \<noteq> [] \<longrightarrow>
             analyzeProduct_begin s = (s, Some (analyzeRequest (originalText s)))))"
proof -
  have "Call \<notin> set es \<Longrightarrow> at_most_one (run es start)"
    by (rule run_at_most_one) (simp add: at_most_one_def start_def initial_def)
  then have a: "Call \<notin> set es \<longrightarrow>
      outstanding (run es start) \<le> 1
      \<and> (isLoading (page (run es start)) \<longleftrightarrow> outstanding (run es start) = 1)
      \<and> (0 < outstanding (run es start) \<longrightarrow> buttonDisabled (page (run es start)))"
    by (auto simp: at_most_one_def buttonDisabled_def)
  have b: "isLoading s \<longrightarrow>
        clickAnalyze s = (s, None)
        \<and> (trim (originalText s) \<noteq> [] \<longrightarrow>
             analyzeProduct_begin s = (s, Some (analyzeRequest (originalText s))))"
    by (simp add: clickAnalyze_def buttonDisabled_def analyzeProduct_begin_def)
  from a b show ?thesis by blast
qed

theorem C4_guard_is_the_button_witness:
  "Call \<notin> set [Type (str ''desk lamp''), Click, Click, Ended (success sampleResult), Select FAQ, Click]
   \<and> outstanding (run [Type (str ''desk lamp''), Click, Click, Ended (success sampleResult),
                        Select FAQ, Click] start) = 1
   \<and> isLoading (page (run [Type (str ''desk lamp''), Click, Click,
                            Ended (success sampleResult), Select FAQ, Click] start))
   \<and> buttonDisabled (page (run [Type (str ''desk lamp''), Click, Click,
                                 Ended (success sampleResult), Select FAQ, Click] start))
   \<and> isLoading loading \<and> trim (originalText loading) \<noteq> []
   \<and> clickAnalyze loading = (loading, None)
   \<and> analyzeProduct_begin loading = (loading, Some (analyzeRequest (str ''desk lamp'')))"
proof -
  let ?es = "[Type (str ''desk lamp''), Click, Click, Ended (success sampleResult), Select FAQ, Click]"
  have c: "Call \<notin> set ?es"
    by simp
  have l: "isLoading loading"
    by (simp add: loading_eq)
  have t: "trim (originalText loading) \<noteq> []"
    using trim_desk_lamp by (simp add: loading_eq)
  have o: "outstanding (run ?es start) = 1"
    using trim_desk_lamp
    by (simp add: start_def initial_def issued_def clickAnalyze_def buttonDisabled_def
        analyzeProduct_begin_def setOriginalText_def setActiveTab_def success_def)
  show ?thesis
    using c l t o C4_guard_is_the_button [of ?es loading] by (simp add: loading_eq)
qed

text \<open>
  C5, as stated: after a failed request the controller's state differs from the
  no-analysis-yet state, because a diagnostic error is recorded in it.
  Refuted: from the page where a description has been typed and nothing analysed, a
  request that fails (on any of the three paths) ends in that very state.
\<close>

theorem C5_failed_state_equals_idle:
  "fst (analyzeProduct Rejected typed) = typed
   \<and> fst (analyzeProduct serviceError typed) = typed
   \<and> fst (analyzeProduct notJson typed) = typed"
  using trim_desk_lamp
  by (simp add: analyzeProduct_def analyzeProduct_begin_def typed_eq serviceError_def
      notJson_def)

text \<open>
  C5, amended: a failure is recorded on the console only. The handler writes one
  entry, "Error analyzing product:" with the error caught, and keeps nothing in the
  component's state: a failed run that starts with no request in flight ends in the
  state it started from.
\<close>

theorem C5_failure_only_on_console:
  assumes "failed outcome" and "\<not> isLoading s" and "trim (originalText s) \<noteq> []"
  shows "fst (analyzeProduct outcome s) = s
         \<and> (\<exists>e. snd (snd (analyzeProduct outcome s)) = [(''Error analyzing product:'', e)])"
proof -
  obtain e where "analyzeProduct_resume outcome (s\<lparr>isLoading := True\<rparr>)
                    = (s\<lparr>isLoading := True, isLoading := False\<rparr>, logged e)"
    using resume_failed [OF assms(1)] by blast
  then show ?thesis
    using assms(2,3) by (simp add: analyzeProduct_def begin_nonblank logged_def)
qed

theorem C5_failure_only_on_console_witness:
  "failed Rejected \<and> \<not> isLoading typed \<and> trim (originalText typed) \<noteq> []
   \<and> fst (analyzeProduct Rejected typed) = typed
   \<and> snd (snd (analyzeProduct Rejected typed)) = [(''Error analyzing product:'', FetchRejected)]"
proof -
  have f: "failed Rejected"
    by (simp add: failed_def)
  have l: "\<not> isLoading typed"
    by (simp add: typed_eq)
  have t: "trim (originalText typed) \<noteq> []"
    using trim_desk_lamp by (simp add: typed_eq)
  have "snd (snd (analyzeProduct Rejected typed)) = [(''Error analyzing product:'', FetchRejected)]"
    using t by (simp add: analyzeProduct_def begin_nonblank logged_def)
  then show ?thesis
    using f l t C5_failure_only_on_console [OF f l t] by simp
qed

text \<open>
  C6: when the text is empty or consists of white space only, submitting does
  nothing: the state (loading flag, stored result, active tab, text) is unchanged,
  no call is issued and nothing is written to the console. This holds for the
  handler called directly, for its first half, and for a click on the button.
\<close>

theorem C6_blank_submit_is_noop:
  assumes "trim (originalText s) = []"
  shows "analyzeProduct outcome s = (s, None, [])
         \<and> analyzeProduct_begin s = (s, None)
         \<and> clickAnalyze s = (s, None)"
  using assms by (simp add: analyzeProduct_def analyzeProduct_begin_def clickAnalyze_def)

theorem C6_blank_submit_is_noop_witness:
  "trim (originalText (setOriginalText [0x20, 0x20, 0x20] shown)) = []
   \<and> analyzeProduct (success malformedBody) (setOriginalText [0x20, 0x20, 0x20] shown)
       = (setOriginalText [0x20, 0x20, 0x20] shown, None, [])
   \<and> analyzeProduct_begin (setOriginalText [0x20, 0x20, 0x20] shown)
       = (setOriginalText [0x20, 0x20, 0x20] shown, None)
   \<and> clickAnalyze (setOriginalText [0x20, 0x20, 0x20] shown)
       = (setOriginalText [0x20, 0x20, 0x20] shown, None)
   \<and> trim (originalText initial) = []
   \<and> analyzeProduct (success sampleResult) initial = (initial, None, [])"
proof -
  have t: "trim (originalText (setOriginalText [0x20, 0x20, 0x20] shown)) = []"
    using trim_spaces by (simp add: setOriginalText_def)
  have e: "trim (originalText initial) = []"
    using trim_empty by (simp add: initial_def)
  show ?thesis
    using t e C6_blank_submit_is_noop [OF t, of "success malformedBody"]
      C6_blank_submit_is_noop [OF e, of "success sampleResult"]
    by simp
qed

text \<open>
  C9: selecting a tab changes the active tab and nothing else: the loading flag, the
  stored result and the text are as before, for every tab and every state (the
  function is total, so the call always succeeds). Selecting facts when facts is
  active leaves the whole state unchanged.
\<close>

theorem C9_selectTab_frame:
  "activeTab (setActiveTab t s) = t
   \<and> isLoading (setActiveTab t s) = isLoading s
   \<and> analysisResult (setActiveTab t s) = analysisResult s
   \<and> originalText (setActiveTab t s) = originalText s
   \<and> (activeTab s = Facts \<longrightarrow> setActiveTab Facts s = s)"
  by (simp add: setActiveTab_def)

theorem C9_selectTab_frame_witness:
  "activeTab shown = Facts \<and> setActiveTab Facts shown = shown
   \<and> activeTab (setActiveTab FAQ shown) = FAQ
   \<and> analysisResult (setActiveTab FAQ shown) = sampleResult
   \<and> \<not> isLoading (setActiveTab FAQ shown)"
  using C9_selectTab_frame [of Facts shown] C9_selectTab_frame [of FAQ shown]
  by (simp add: shown_eq)

section \<open>Claims about the speedometer\<close>

text \<open>
  C7: for every integer score from 0 to 100 the colour is the high one (green) exactly
  when the score is at least 80, the medium one (yellow) exactly when it is at least
  60 and below 80, and the low one (red) exactly when it is below 60; the ring's
  stroke follows the same bands. In particular 85 is high, 60 is medium and 59 is low.
\<close>

theorem C7_scoreColor_bands:
  fixes s :: int
  assumes "0 \<le> s" and "s \<le> 100"
  shows "(getScoreColor s = ''text-green-400'' \<longleftrightarrow> s \<ge> 80)
         \<and> (getScoreColor s = ''text-yellow-400'' \<longleftrightarrow> 60 \<le> s \<and> s < 80)
         \<and> (getScoreColor s = ''text-red-400'' \<longleftrightarrow> s < 60)
         \<and> (strokeColor s = ''#10b981'' \<longleftrightarrow> s \<ge> 80)
         \<and> (strokeColor s = ''#f59e0b'' \<longleftrightarrow> 60 \<le> s \<and> s < 80)
         \<and> (strokeColor s = ''#ef4444'' \<longleftrightarrow> s < 60)
         \<and> getScoreColor (85::int) = ''text-green-400''
         \<and> getScoreColor (60::int) = ''text-yellow-400''
         \<and> getScoreColor (59::int) = ''text-red-400''"
  by (simp add: getScoreColor_def strokeColor_def)

theorem C7_scoreColor_bands_witness:
  "(0::int) \<le> 79 \<and> (79::int) \<le> 100
   \<and> getScoreColor (79::int) = ''text-yellow-400'' \<and> strokeColor (79::int) = ''#f59e0b''
   \<and> getScoreColor (79::int) \<noteq> ''text-green-400'' \<and> getScoreColor (79::int) \<noteq> ''text-red-400''"
proof -
  have lo: "(0::int) \<le> 79" and hi: "(79::int) \<le> 100"
    by simp_all
  show ?thesis
    using C7_scoreColor_bands [OF lo hi] by simp
qed

text \<open>
  C8: for every integer score from 0 to 100 colour and caption name the same band:
  the colour is the high one exactly when the caption is the "Excellent" one, the
  medium one exactly when the caption is the "Good" one, and the low one exactly
  when the caption is "Needs Improvement".
\<close>

theorem C8_color_label_agree:
  fixes s :: int
  assumes "0 \<le> s" and "s \<le> 100"
  shows "(getScoreColor s = ''text-green-400''
            \<longleftrightarrow> scoreLabel s = ''Excellent AI Search Optimization'')
         \<and> (getScoreColor s = ''text-yellow-400''
            \<longleftrightarrow> scoreLabel s = ''Good AI Search Optimization'')
         \<and> (getScoreColor s = ''text-red-400'' \<longleftrightarrow> scoreLabel s = ''Needs Improvement'')"
  by (simp add: getScoreColor_def scoreLabel_def)

theorem C8_color_label_agree_witness:
  "(0::int) \<le> 60 \<and> (60::int) \<le> 100
   \<and> getScoreColor (60::int) = ''text-yellow-400''
   \<and> scoreLabel (60::int) = ''Good AI Search Optimization''"
proof -
  have lo: "(0::int) \<le> 60" and hi: "(60::int) \<le> 100"
    by simp_all
  have c: "getScoreColor (60::int) = ''text-yellow-400''"
    by (simp add: getScoreColor_def)
  show ?thesis
    using C8_color_label_agree [OF lo hi] c by simp
qed

text \<open>
  C10: the mappings are defined for every number, not only from 0 to 100. Every score
  below 60, negative ones included, gets the low colour, the low stroke and "Needs
  Improvement"; every score of 80 or more, also above 100, gets the high colour, the
  high stroke and the "Excellent" caption. The number shown is the score as given:
  the component neither checks the range nor clamps.
\<close>

theorem C10_total_outside_range:
  fixes score :: "'a::linordered_idom"
  shows "(score < 60 \<longrightarrow>
            number_class (Speedometer score) = ''text-red-400''
            \<and> ring_stroke (Speedometer score) = ''#ef4444''
            \<and> caption (Speedometer score) = ''Needs Improvement'')
         \<and> (score \<ge> 80 \<longrightarrow>
            number_class (Speedometer score) = ''text-green-400''
            \<and> ring_stroke (Speedometer score) = ''#10b981''
            \<and> caption (Speedometer score) = ''Excellent AI Search Optimization'')
         \<and> number_shown (Speedometer score) = score"
  by (simp add: Speedometer_def getScoreColor_def strokeColor_def scoreLabel_def)

theorem C10_total_outside_range_witness:
  "(- 5 :: int) < 60 \<and> caption (Speedometer (- 5 :: int)) = ''Needs Improvement''
   \<and> number_class (Speedometer (- 5 :: int)) = ''text-red-400''
   \<and> number_shown (Speedometer (- 5 :: int)) = - 5
   \<and> (150 :: real) \<ge> 80
   \<and> caption (Speedometer (150 :: real)) = ''Excellent AI Search Optimization''
   \<and> number_class (Speedometer (150 :: real)) = ''text-green-400''
   \<and> number_shown (Speedometer (150 :: real)) = 150"
  using C10_total_outside_range [of "- 5 :: int"] C10_total_outside_range [of "150 :: real"]
  by simp

end
